theory Spec2Isabelle
  imports Main
begin

section \<open>Values, errors and responses\<close>

text \<open>
  The controllers exchange JSON documents with redis, with the session and with the
  client. A decoded document is a value of \<open>json\<close>; a Python dict is an association
  list read with \<open>map_of\<close>.
\<close>

datatype json =
    JNull
  | JBool bool
  | JInt int
  | JStr string
  | JArr "json list"
  | JObj "(string \<times> json) list"

datatype error = KeyError | TypeError | ValueError | AssertionError | OtherError string

text \<open>A view returns a body and a status code, or an exception leaves it.\<close>

type_synonym response = "json \<times> nat"

type_synonym outcome = "error + response"

text \<open>\<open>d[k]\<close> for a string key: only a dict can be subscripted by a string.\<close>

fun py_getitem :: "json \<Rightarrow> string \<Rightarrow> error + json" where
  "py_getitem (JObj kvs) k = (case map_of kvs k of None \<Rightarrow> Inl KeyError | Some v \<Rightarrow> Inr v)"
| "py_getitem _ k = Inl TypeError"

text \<open>\<open>d[k] = v\<close> on a dict: the key keeps its place, a new key goes to the end.\<close>

fun py_setitem :: "(string \<times> json) list \<Rightarrow> string \<Rightarrow> json \<Rightarrow> (string \<times> json) list" where
  "py_setitem [] k v = [(k, v)]"
| "py_setitem ((k', v') # kvs) k v =
     (if k' = k then (k, v) # kvs else (k', v') # py_setitem kvs k v)"

text \<open>
  Iterating a decoded document: a list gives its elements, a string its characters,
  a dict its keys; nothing else is iterable.
\<close>

fun py_iter :: "json \<Rightarrow> error + json list" where
  "py_iter (JArr xs) = Inr xs"
| "py_iter (JStr s) = Inr (map (\<lambda>c. JStr [c]) s)"
| "py_iter (JObj kvs) = Inr (map (\<lambda>kv. JStr (fst kv)) kvs)"
| "py_iter _ = Inl TypeError"

section \<open>The markers of a template\<close>

text \<open>
  \<open>re.findall('\$.+?\$', state)\<close>: a marker starts at a dollar sign, takes at least one
  character that is not a newline (the dot), and ends at the first dollar sign after
  that; a newline before the closing dollar sign fails the attempt. Matches do not
  overlap: the scan goes on behind a match, and one character further after a failed
  attempt.
\<close>

fun scan_to_dollar :: "string \<Rightarrow> (string \<times> string) option" where
  "scan_to_dollar [] = None"
| "scan_to_dollar (c # cs) =
     (if c = CHR ''$'' then Some ([c], cs)
      else if c = CHR 0x0A then None
      else (case scan_to_dollar cs of
              None \<Rightarrow> None
            | Some (m, rest) \<Rightarrow> Some (c # m, rest)))"

fun match_marker :: "string \<Rightarrow> (string \<times> string) option" where
  "match_marker (d # c # cs) =
     (if d = CHR ''$'' \<and> c \<noteq> CHR 0x0A
      then (case scan_to_dollar cs of
              None \<Rightarrow> None
            | Some (m, rest) \<Rightarrow> Some (d # c # m, rest))
      else None)"
| "match_marker _ = None"

lemma scan_to_dollar_shorter:
  "scan_to_dollar s = Some (m, rest) \<Longrightarrow> length rest < length s"
  by (induction s arbitrary: m rest) (auto split: if_splits option.splits)

lemma match_marker_shorter:
  "match_marker s = Some (m, rest) \<Longrightarrow> length rest < length s"
  by (cases s rule: match_marker.cases)
     (auto split: if_splits option.splits dest: scan_to_dollar_shorter)

function findall :: "string \<Rightarrow> string list" where
  "findall [] = []"
| "findall (c # cs) =
     (case match_marker (c # cs) of
        None \<Rightarrow> findall cs
      | Some (m, rest) \<Rightarrow> m # findall rest)"
  by pat_completeness auto
termination
  by (relation "measure length") (auto dest: match_marker_shorter)

section \<open>Redis, the session and the collaborators\<close>

text \<open>
  Redis is created with \<open>decode_responses=True\<close>: it maps keys to strings, and
  \<open>redis.get\<close> of a missing key is \<open>None\<close>.
\<close>

type_synonym redis = "string \<rightharpoonup> string"

text \<open>
  The keys of a Python dict are dynamically typed. The state controller stores grants
  under \<open>str(state_id)\<close> and reads them under a string and under a loop index.
\<close>

datatype pykey = KStr string | KInt int

text \<open>
  The session, with the fields the before-request hooks initialise: the analytics jobs,
  the data tasks and the access grants of the caller.
\<close>

record session =
  jobs :: "string list"
  data_tasks :: "string list"
  state_access :: "pykey \<rightharpoonup> string list"

text \<open>
  What the controllers call outside the sources at hand is a parameter:
  \<^item> \<open>parse_value\<close>: the first component of \<open>AnalyticTask.parse_value\<close>, the task
    id of a marker;
  \<^item> \<open>list_set\<close>: Python's \<open>list(set(xs))\<close>, whose order is not specified;
  \<^item> \<open>json_loads\<close>: \<open>json.loads\<close> on a string, \<open>None\<close> where it raises
    \<open>ValueError\<close>; \<open>json_dumps\<close>: \<open>json.dumps\<close>;
  \<^item> \<open>re_sub\<close>: \<open>re.sub(pattern, repl, string)\<close> on the values the caller passes;
  \<^item> \<open>get_data_state_for_task_id\<close>: the data state of a task, \<open>None\<close> if there is
    none;
  \<^item> \<open>factory\<close> and \<open>handle\<close>: \<open>ETLHandler.factory\<close> and the \<open>handle\<close> method of
    the handler it returns (always called with \<open>use_existing=True\<close>), acting on
    the world \<open>'w\<close> of brokers, workers and remote servers.
\<close>

record ('h, 'w) env =
  parse_value :: "string \<Rightarrow> string"
  list_set :: "string list \<Rightarrow> string list"
  json_loads :: "string \<Rightarrow> json option"
  json_dumps :: "json \<Rightarrow> string"
  re_sub :: "json \<Rightarrow> string list \<Rightarrow> json \<Rightarrow> error + json"
  get_data_state_for_task_id :: "string \<Rightarrow> bool \<Rightarrow> json option"
  factory :: "json \<Rightarrow> json \<Rightarrow> json \<Rightarrow> 'w \<Rightarrow> (error + 'h) \<times> 'w"
  handle :: "'h \<Rightarrow> json \<Rightarrow> string list \<Rightarrow> bool \<Rightarrow> 'w \<Rightarrow> (error + string list) \<times> 'w"

text \<open>All that Python promises of \<open>list(set(xs))\<close>: the same elements, each once.\<close>

definition list_set_ok :: "(string list \<Rightarrow> string list) \<Rightarrow> bool" where
  "list_set_ok f \<longleftrightarrow> (\<forall>xs. set (f xs) = set xs \<and> distinct (f xs))"

section \<open>The state controller\<close>

definition error_body :: "string \<Rightarrow> json" where
  "error_body msg = JObj [(''error'', JStr msg)]"

definition no_task_ids_error :: string where
  "no_task_ids_error =
     ''This state cannot be saved because it contains no data '' @
     ''task ids. These are used to verify access to the state and '' @
     ''its potentially sensitive data.''"

definition not_in_redis_error :: "string \<Rightarrow> string" where
  "not_in_redis_error task_id =
     ''Data task id is '' @ task_id @ '' could not be found in redis. '' @
     ''State cannot be saved''"

definition no_valid_data_state_error :: "string \<Rightarrow> string" where
  "no_valid_data_state_error task_id =
     ''Task with id '' @ task_id @ '' was found in redis but it represents '' @
     ''no valid data state. '' @
     ''State cannot be saved.''"

definition state_not_found_error :: "string \<Rightarrow> string" where
  "state_not_found_error state_id = ''Could not find state associated with id '' @ state_id"

definition access_not_requested_error :: string where
  "access_not_requested_error =
     ''Cannot get state. Make sure to submit a POST request '' @
     ''to this very same URL containing credentials and server '' @
     ''data to launch access verification. Only after that a GET '' @
     ''request might or might not return you the saved state.''"

definition etl_failed_error :: string where
  "etl_failed_error =
     ''One or more ETLs failed or has unknown status. '' @
     ''Assuming no access to saved state.''"

definition data_key :: "string \<Rightarrow> string" where
  "data_key task_id = ''data:'' @ task_id"

definition state_key :: "string \<Rightarrow> string" where
  "state_key state_id = ''state:'' @ state_id"

text \<open>
  The request body of \<open>save_state\<close> after schema validation; \<open>state\<close> is
  \<open>str(payload['state'])\<close>.
\<close>

record payload =
  state :: string
  server :: json
  handler :: json

text \<open>
  The loop of \<open>save_state\<close> over the task ids: it leaves with a 400 response at the
  first id without a usable data state, and otherwise collects the descriptors in the
  order of the ids.
\<close>

fun collect_descriptors ::
  "(string \<Rightarrow> json option) \<Rightarrow> redis \<Rightarrow> string list \<Rightarrow> json list \<Rightarrow> response + json list" where
  "collect_descriptors loads r [] descriptors = Inr descriptors"
| "collect_descriptors loads r (task_id # rest) descriptors =
     (case r (data_key task_id) of
        None \<Rightarrow> Inl (error_body (not_in_redis_error task_id), 400)
      | Some v \<Rightarrow>
          (case loads v of
             None \<Rightarrow> Inl (error_body (no_valid_data_state_error task_id), 400)
           | Some data_state \<Rightarrow>
               (case py_getitem data_state ''meta'' of
                  Inl e \<Rightarrow> Inl (error_body (no_valid_data_state_error task_id), 400)
                | Inr meta \<Rightarrow>
                    (case py_getitem meta ''descriptor'' of
                       Inl e \<Rightarrow> Inl (error_body (no_valid_data_state_error task_id), 400)
                     | Inr d \<Rightarrow> collect_descriptors loads r rest (descriptors @ [d])))))"

definition meta_state_of :: "payload \<Rightarrow> string list \<Rightarrow> json list \<Rightarrow> json" where
  "meta_state_of p task_ids descriptors =
     JObj [(''state'', JStr (state p)),
           (''server'', server p),
           (''handler'', handler p),
           (''task_ids'', JArr (map JStr task_ids)),
           (''descriptors'', JArr descriptors)]"

text \<open>
  \<open>save_state\<close>; \<open>uuid\<close> is the string of the id that \<open>uuid4()\<close> draws. The result
  is the outcome and the store after the call.
\<close>

definition save_state :: "('h, 'w) env \<Rightarrow> string \<Rightarrow> redis \<Rightarrow> payload \<Rightarrow> outcome \<times> redis" where
  "save_state E uuid r p =
     (let matches = findall (state p);
          task_ids = list_set E (map (parse_value E) matches)
      in if matches = [] then (Inr (error_body no_task_ids_error, 400), r)
         else (case collect_descriptors (json_loads E) r task_ids [] of
                 Inl resp \<Rightarrow> (Inr resp, r)
               | Inr descriptors \<Rightarrow>
                   if length matches \<noteq> length descriptors then (Inl AssertionError, r)
                   else (Inr (JObj [(''state_id'', JStr uuid)], 201),
                         r(state_key uuid \<mapsto>
                             json_dumps E (meta_state_of p task_ids descriptors)))))"

text \<open>
  \<open>request_state_access\<close>. The result is the outcome, the session and the world after
  the call. \<open>not value\<close> holds for a missing key and for the empty string.
\<close>

definition request_state_access ::
  "('h, 'w) env \<Rightarrow> redis \<Rightarrow> session \<Rightarrow> 'w \<Rightarrow> string \<Rightarrow> json \<Rightarrow> bool \<Rightarrow> outcome \<times> session \<times> 'w" where
  "request_state_access E r s w state_id auth wait =
     (case r (state_key state_id) of
        None \<Rightarrow> (Inr (error_body (state_not_found_error state_id), 404), s, w)
      | Some v \<Rightarrow>
          if v = [] then (Inr (error_body (state_not_found_error state_id), 404), s, w)
          else
          (case json_loads E v of
             None \<Rightarrow> (Inl ValueError, s, w)
           | Some meta_state \<Rightarrow>
               (case py_getitem meta_state ''handler'' of
                  Inl e \<Rightarrow> (Inl e, s, w)
                | Inr h_name \<Rightarrow>
               (case py_getitem meta_state ''server'' of
                  Inl e \<Rightarrow> (Inl e, s, w)
                | Inr srv \<Rightarrow>
               (case factory E h_name srv auth w of
                  (Inl e, w1) \<Rightarrow> (Inl e, s, w1)
                | (Inr etl_handler, w1) \<Rightarrow>
               (case py_getitem meta_state ''descriptors'' of
                  Inl e \<Rightarrow> (Inl e, s, w1)
                | Inr descriptors \<Rightarrow>
               (case handle E etl_handler descriptors (data_tasks s) wait w1 of
                  (Inl e, w2) \<Rightarrow> (Inl e, s, w2)
                | (Inr task_ids, w2) \<Rightarrow>
                    (Inr (JStr [], 202),
                     s\<lparr>data_tasks := list_set E (data_tasks s @ task_ids),
                       state_access := (state_access s)(KStr state_id \<mapsto> task_ids)\<rparr>,
                     w2))))))))"

text \<open>
  The first loop of \<open>get_state_data\<close> over the grant: \<open>Some\<close> is the response (or
  the exception) it leaves the view with, \<open>None\<close> means the loop ran to its end.
\<close>

fun poll_grant :: "(string \<Rightarrow> bool \<Rightarrow> json option) \<Rightarrow> bool \<Rightarrow> string list \<Rightarrow> outcome option" where
  "poll_grant gds wait [] = None"
| "poll_grant gds wait (task_id # rest) =
     (case gds task_id wait of
        None \<Rightarrow> Some (Inr (error_body etl_failed_error, 403))
      | Some data_state \<Rightarrow>
          (case py_getitem data_state ''etl_state'' of
             Inl e \<Rightarrow> Some (Inl e)
           | Inr st \<Rightarrow>
               if st = JStr ''SUBMITTED''
               then Some (Inr (JObj [(''message'', JStr ''ETLs are still running.'')], 202))
               else if st = JStr ''SUCCESS'' then poll_grant gds wait rest
               else Some (Inr (error_body etl_failed_error, 403))))"

text \<open>
  The second loop of \<open>get_state_data\<close>, over \<open>enumerate(meta_state['task_ids'])\<close>:
  the replacement is \<open>session['state_access'][i]\<close>, the grant table read at the loop
  index; then \<open>meta_state['state']\<close> is read, and \<open>re.sub\<close> is called.
\<close>

fun substitute ::
  "(json \<Rightarrow> string list \<Rightarrow> json \<Rightarrow> error + json) \<Rightarrow> (pykey \<rightharpoonup> string list) \<Rightarrow>
   (nat \<times> json) list \<Rightarrow> (string \<times> json) list \<Rightarrow> error + (string \<times> json) list" where
  "substitute sub sa [] meta = Inr meta"
| "substitute sub sa ((i, task_id) # rest) meta =
     (case sa (KInt (int i)) of
        None \<Rightarrow> Inl KeyError
      | Some repl \<Rightarrow>
          (case map_of meta ''state'' of
             None \<Rightarrow> Inl KeyError
           | Some str \<Rightarrow>
               (case sub task_id repl str of
                  Inl e \<Rightarrow> Inl e
                | Inr str' \<Rightarrow> substitute sub sa rest (py_setitem meta ''state'' str'))))"

definition get_state_data :: "('h, 'w) env \<Rightarrow> redis \<Rightarrow> session \<Rightarrow> string \<Rightarrow> bool \<Rightarrow> outcome" where
  "get_state_data E r s state_id wait =
     (case r (state_key state_id) of
        None \<Rightarrow> Inl TypeError
      | Some v \<Rightarrow>
          (case json_loads E v of
             None \<Rightarrow> Inl ValueError
           | Some meta_state \<Rightarrow>
               (case state_access s (KStr state_id) of
                  None \<Rightarrow> Inr (error_body access_not_requested_error, 404)
                | Some grant \<Rightarrow>
                    (case poll_grant (get_data_state_for_task_id E) wait grant of
                       Some out \<Rightarrow> out
                     | None \<Rightarrow>
                         (case py_getitem meta_state ''task_ids'' of
                            Inl e \<Rightarrow> Inl e
                          | Inr tids \<Rightarrow>
                              (case py_iter tids of
                                 Inl e \<Rightarrow> Inl e
                               | Inr items \<Rightarrow>
                                   (case meta_state of
                                      JObj kvs \<Rightarrow>
                                        (case substitute (re_sub E) (state_access s)
                                                (enumerate 0 items) kvs of
                                           Inl e \<Rightarrow> Inl e
                                         | Inr kvs' \<Rightarrow> Inr (JObj [(''state'', JObj kvs')], 200))
                                    | _ \<Rightarrow> Inl TypeError)))))))"

section \<open>The analytics controller\<close>

text \<open>
  What a finished job left behind: a value, or an exception with the name of its type
  and its \<open>str\<close>.
\<close>

datatype job_result = Value json | Exception string string

text \<open>
  The job registry and the task queue are parameters, acting on the world \<open>'c\<close> of
  the broker and its workers:
  \<^item> \<open>job_factory\<close>: \<open>AnalyticsJob.factory\<close>, \<open>None\<close> for an unknown name;
  \<^item> \<open>delay\<close>: submits the job and returns the id of the new task;
  \<^item> \<open>async_state\<close> and \<open>async_result\<close>: the \<open>state\<close> and the \<open>result\<close> of
    \<open>celery.AsyncResult(job_id)\<close>;
  \<^item> \<open>async_get\<close>: \<open>get(propagate=False)\<close>, the world once the job is ready,
    \<open>None\<close> if it never is and the call does not return;
  \<^item> \<open>revoke\<close>: \<open>celery.control.revoke\<close> with \<open>terminate=True\<close>.
\<close>

record ('j, 'c) celery =
  job_factory :: "string \<Rightarrow> 'j option"
  delay :: "'j \<Rightarrow> json \<Rightarrow> 'c \<Rightarrow> (error + string) \<times> 'c"
  async_state :: "'c \<Rightarrow> string \<Rightarrow> string"
  async_result :: "'c \<Rightarrow> string \<Rightarrow> job_result"
  async_get :: "string \<Rightarrow> 'c \<Rightarrow> 'c option"
  revoke :: "string \<Rightarrow> bool \<Rightarrow> 'c \<Rightarrow> 'c"


definition error_msg_body :: "string \<Rightarrow> json" where
  "error_msg_body msg = JObj [(''error_msg'', JStr msg)]"


definition no_matching_job_error :: string where
  "no_matching_job_error = ''No matching job found.''"


text \<open>\<open>"{}: {}".format(type(result).__name__, str(result))\<close>\<close>

definition exception_str :: "string \<Rightarrow> string \<Rightarrow> string" where
  "exception_str name msg = name @ '': '' @ msg"

definition job_details :: "('j, 'c) celery \<Rightarrow> 'c \<Rightarrow> string \<Rightarrow> json" where
  "job_details C w job_id =
     (let st = async_state C w job_id;
          res = (case async_result C w job_id of
                   Exception name msg \<Rightarrow> JStr (exception_str name msg)
                 | Value v \<Rightarrow> v)
      in JObj [(''status'', JStr st), (''result'', res)])"

text \<open>
  \<open>get_job_details\<close>; \<open>None\<close> is the call that waits for a job that never gets
  ready.
\<close>

definition get_job_details ::
  "('j, 'c) celery \<Rightarrow> session \<Rightarrow> 'c \<Rightarrow> string \<Rightarrow> bool \<Rightarrow> (outcome \<times> session \<times> 'c) option" where
  "get_job_details C s w job_id wait =
     (if job_id \<notin> set (jobs s)
      then Some (Inr (error_msg_body no_matching_job_error, 404), s, w)
      else if wait
      then (case async_get C job_id w of
              None \<Rightarrow> None
            | Some w' \<Rightarrow> Some (Inr (job_details C w' job_id, 200), s, w'))
      else Some (Inr (job_details C w job_id, 200), s, w))"


section \<open>Notions of the specification\<close>

text \<open>
  A job of a grant has the status \<open>st\<close> if its data state exists and its field
  \<open>etl_state\<close> is that string. It is pollable if reading that field does not raise.
\<close>

definition has_status :: "(string \<Rightarrow> bool \<Rightarrow> json option) \<Rightarrow> bool \<Rightarrow> string \<Rightarrow> string \<Rightarrow> bool" where
  "has_status gds wait task_id st =
     (case gds task_id wait of
        None \<Rightarrow> False
      | Some data_state \<Rightarrow> py_getitem data_state ''etl_state'' = Inr (JStr st))"

definition pollable :: "(string \<Rightarrow> bool \<Rightarrow> json option) \<Rightarrow> bool \<Rightarrow> string \<Rightarrow> bool" where
  "pollable gds wait task_id =
     (case gds task_id wait of
        None \<Rightarrow> True
      | Some data_state \<Rightarrow>
          (case py_getitem data_state ''etl_state'' of Inl e \<Rightarrow> False | Inr st \<Rightarrow> True))"

definition pending_response :: outcome where
  "pending_response = Inr (JObj [(''message'', JStr ''ETLs are still running.'')], 202)"

definition denied_response :: outcome where
  "denied_response = Inr (error_body etl_failed_error, 403)"

definition status_code :: "outcome \<Rightarrow> nat option" where
  "status_code out = (case out of Inl e \<Rightarrow> None | Inr resp \<Rightarrow> Some (snd resp))"

text \<open>
  A task id has a valid data state if redis holds a document under \<open>data:<id>\<close> that
  decodes and has a descriptor under \<open>meta\<close>.
\<close>

definition valid_data_state :: "(string \<Rightarrow> json option) \<Rightarrow> redis \<Rightarrow> string \<Rightarrow> bool" where
  "valid_data_state loads r task_id =
     (case r (data_key task_id) of
        None \<Rightarrow> False
      | Some v \<Rightarrow>
          (case loads v of
             None \<Rightarrow> False
           | Some data_state \<Rightarrow>
               (case py_getitem data_state ''meta'' of
                  Inl e \<Rightarrow> False
                | Inr meta \<Rightarrow>
                    (case py_getitem meta ''descriptor'' of
                       Inl e \<Rightarrow> False
                     | Inr d \<Rightarrow> True))))"

section \<open>An example deployment\<close>

text \<open>
  Two data tasks \<open>A\<close> and \<open>B\<close> with their data states in redis, a template that
  refers to both, and the state \<open>S\<close> saved from it. Markers are read by dropping the
  dollar signs; the documents in redis are named \<open><A>\<close>, \<open><B>\<close> and \<open><S>\<close>, and
  the decoder knows these three. The ETL handler answers every request with the fresh
  tasks \<open>A1\<close> and \<open>B1\<close> and counts its calls; the statuses of the tasks are a table.
\<close>

definition strip_dollars :: "string \<Rightarrow> string" where
  "strip_dollars m = butlast (tl m)"

definition ex_payload :: payload where
  "ex_payload = \<lparr>state = ''$A$ vs $B$'', server = JStr ''srv'', handler = JStr ''test''\<rparr>"

definition ex_meta_state :: json where
  "ex_meta_state = meta_state_of ex_payload [''A'', ''B''] [JStr ''dA'', JStr ''dB'']"

definition ex_loads :: "string \<Rightarrow> json option" where
  "ex_loads = map_of
     [(''<A>'', JObj [(''meta'', JObj [(''descriptor'', JStr ''dA'')])]),
      (''<B>'', JObj [(''meta'', JObj [(''descriptor'', JStr ''dB'')])]),
      (''<S>'', ex_meta_state)]"

definition ex_data :: redis where
  "ex_data = [data_key ''A'' \<mapsto> ''<A>'', data_key ''B'' \<mapsto> ''<B>'']"

definition ex_redis :: redis where
  "ex_redis = ex_data(state_key ''S'' \<mapsto> ''<S>'')"

definition ex_env :: "(string \<times> string) list \<Rightarrow> (unit, nat) env" where
  "ex_env statuses =
     \<lparr>parse_value = strip_dollars,
      list_set = remdups,
      json_loads = ex_loads,
      json_dumps = (\<lambda>doc. ''<S>''),
      re_sub = (\<lambda>pattern repl str. Inl TypeError),
      get_data_state_for_task_id =
        (\<lambda>task_id wait. map_option (\<lambda>st. JObj [(''etl_state'', JStr st)]) (map_of statuses task_id)),
      factory = (\<lambda>h_name srv auth w. (Inr (), w)),
      handle = (\<lambda>h descriptors tasks wait w. (Inr [''A1'', ''B1''], Suc w))\<rparr>"

definition ex_session :: "string list \<Rightarrow> session" where
  "ex_session grant =
     \<lparr>jobs = [''J1''], data_tasks = [''A''], state_access = [KStr ''S'' \<mapsto> grant]\<rparr>"

definition ex_celery :: "(unit, nat) celery" where
  "ex_celery =
     \<lparr>job_factory = (\<lambda>name. if name = ''pca'' then Some () else None),
      delay = (\<lambda>job a w. (Inr ''J2'', Suc w)),
      async_state = (\<lambda>w job_id. ''FAILURE''),
      async_result = (\<lambda>w job_id. Exception ''ValueError'' ''bad input''),
      async_get = (\<lambda>job_id w. Some w),
      revoke = (\<lambda>job_id wait w. w)\<rparr>"

section \<open>Saving a state\<close>

lemma collect_descriptors_length:
  "collect_descriptors loads r tids acc = Inr ds \<Longrightarrow> length ds = length acc + length tids"
  by (induction tids arbitrary: acc) (auto split: option.splits sum.splits)

lemma collect_descriptors_code:
  "collect_descriptors loads r tids acc = Inl (body, code) \<Longrightarrow> code = 400"
  by (induction tids arbitrary: acc) (auto split: option.splits sum.splits)

lemma collect_descriptors_valid:
  "list_all (valid_data_state loads r) tids \<Longrightarrow>
     \<exists>ds. collect_descriptors loads r tids acc = Inr ds"
  by (induction tids arbitrary: acc)
     (auto simp: valid_data_state_def split: option.splits sum.splits)

lemma list_set_ok_length:
  assumes "list_set_ok f" and "\<not> distinct xs"
  shows "length (f xs) < length xs"
proof -
  from assms(1) have "length (f xs) = card (set xs)"
    by (metis list_set_ok_def distinct_card)
  moreover from assms(2) have "card (set xs) < length xs"
    by (metis card_length le_neq_implies_less card_distinct)
  ultimately show ?thesis by simp
qed

lemma list_set_ok_remdups: "list_set_ok remdups"
  by (simp add: list_set_ok_def)

lemmas ex_defs =
  ex_env_def ex_data_def ex_payload_def ex_redis_def ex_loads_def ex_session_def
  ex_meta_state_def meta_state_of_def strip_dollars_def data_key_def state_key_def

text \<open>
  C3. \<open>save_state\<close> on a template without markers answers 400 with the message that
  the state holds no data task ids, and leaves redis as it was. When it answers 201,
  the template had markers, the body is the id that \<open>uuid4()\<close> drew, and redis differs
  from before in exactly one key, \<open>state:<id>\<close>, which now holds the encoded record of
  the template, the server, the handler, the task ids and their descriptors. Every
  other response is a 400, and neither it nor an exception writes to redis.
\<close>

theorem save_state_outcomes:
  "(findall (state p) = [] \<longrightarrow>
      save_state E uuid r p = (Inr (error_body no_task_ids_error, 400), r)) \<and>
   (\<forall>body. fst (save_state E uuid r p) = Inr (body, 201) \<longrightarrow>
      findall (state p) \<noteq> [] \<and>
      body = JObj [(''state_id'', JStr uuid)] \<and>
      (\<exists>descriptors.
         collect_descriptors (json_loads E) r
           (list_set E (map (parse_value E) (findall (state p)))) [] = Inr descriptors \<and>
         snd (save_state E uuid r p) =
           r(state_key uuid \<mapsto>
               json_dumps E (meta_state_of p
                 (list_set E (map (parse_value E) (findall (state p)))) descriptors)))) \<and>
   (\<forall>body code. fst (save_state E uuid r p) = Inr (body, code) \<and> code \<noteq> 201 \<longrightarrow>
      code = 400 \<and> snd (save_state E uuid r p) = r) \<and>
   (\<forall>e. fst (save_state E uuid r p) = Inl e \<longrightarrow> snd (save_state E uuid r p) = r)"
  by (auto simp: save_state_def Let_def split: sum.splits if_splits
        dest: collect_descriptors_code)

theorem save_state_outcomes_witness:
  "findall (state (ex_payload\<lparr>state := ''no markers''\<rparr>)) = [] \<and>
   save_state (ex_env []) ''S'' ex_data (ex_payload\<lparr>state := ''no markers''\<rparr>) =
     (Inr (error_body no_task_ids_error, 400), ex_data) \<and>
   fst (save_state (ex_env []) ''S'' ex_data ex_payload) =
     Inr (JObj [(''state_id'', JStr ''S'')], 201) \<and>
   findall (state ex_payload) = [''$A$'', ''$B$''] \<and>
   snd (save_state (ex_env []) ''S'' ex_data ex_payload) = ex_data(state_key ''S'' \<mapsto> ''<S>'')"
proof -
  have none: "findall (state (ex_payload\<lparr>state := ''no markers''\<rparr>)) = []"
    by (simp add: ex_payload_def)
  have ok: "fst (save_state (ex_env []) ''S'' ex_data ex_payload) =
              Inr (JObj [(''state_id'', JStr ''S'')], 201)"
    by (simp add: save_state_def ex_defs)
  have ms: "findall (state ex_payload) = [''$A$'', ''$B$'']"
    by (simp add: ex_payload_def)
  from save_state_outcomes [of "ex_payload\<lparr>state := ''no markers''\<rparr>" "ex_env []" "''S''" ex_data]
  have "save_state (ex_env []) ''S'' ex_data (ex_payload\<lparr>state := ''no markers''\<rparr>) =
          (Inr (error_body no_task_ids_error, 400), ex_data)"
    using none by blast
  moreover
  from save_state_outcomes [of ex_payload "ex_env []" "''S''" ex_data] ok
  obtain descriptors where
    "snd (save_state (ex_env []) ''S'' ex_data ex_payload) =
       ex_data(state_key ''S'' \<mapsto> json_dumps (ex_env [])
         (meta_state_of ex_payload
           (list_set (ex_env []) (map (parse_value (ex_env [])) (findall (state ex_payload))))
           descriptors))"
    by blast
  then have "snd (save_state (ex_env []) ''S'' ex_data ex_payload) =
               ex_data(state_key ''S'' \<mapsto> ''<S>'')"
    by (simp add: ex_env_def)
  ultimately show ?thesis using none ok ms by simp
qed

text \<open>
  C8 as the code has it. If two markers of the template carry the same task id and
  every task id of the template has a valid data state in redis, then \<open>save_state\<close>
  collects fewer descriptors than there are markers, its assertion fails, and nothing
  is written to redis.
\<close>

theorem save_state_repeated_task_id:
  assumes "list_set_ok (list_set E)"
    and "\<not> distinct (map (parse_value E) (findall (state p)))"
    and "list_all (valid_data_state (json_loads E) r)
           (list_set E (map (parse_value E) (findall (state p))))"
  shows "save_state E uuid r p = (Inl AssertionError, r)"
proof -
  let ?ms = "findall (state p)"
  let ?tids = "list_set E (map (parse_value E) ?ms)"
  from assms(3) obtain ds where ds: "collect_descriptors (json_loads E) r ?tids [] = Inr ds"
    using collect_descriptors_valid by blast
  then have "length ds = length ?tids"
    by (auto dest: collect_descriptors_length)
  moreover have "length ?tids < length ?ms"
    using list_set_ok_length [OF assms(1) assms(2)] by simp
  ultimately have "length ?ms \<noteq> length ds" by simp
  moreover from assms(2) have "?ms \<noteq> []" by auto
  ultimately show ?thesis
    using ds by (simp add: save_state_def Let_def)
qed

theorem save_state_repeated_task_id_witness:
  "list_set_ok (list_set (ex_env [])) \<and>
   \<not> distinct (map (parse_value (ex_env [])) (findall (state (ex_payload\<lparr>state := ''$A$ and $A$''\<rparr>)))) \<and>
   list_all (valid_data_state (json_loads (ex_env [])) ex_data)
     (list_set (ex_env [])
        (map (parse_value (ex_env [])) (findall (state (ex_payload\<lparr>state := ''$A$ and $A$''\<rparr>))))) \<and>
   save_state (ex_env []) ''S'' ex_data (ex_payload\<lparr>state := ''$A$ and $A$''\<rparr>) =
     (Inl AssertionError, ex_data)"
proof -
  have h1: "list_set_ok (list_set (ex_env []))"
    by (simp add: ex_env_def list_set_ok_remdups)
  have h2: "\<not> distinct (map (parse_value (ex_env []))
              (findall (state (ex_payload\<lparr>state := ''$A$ and $A$''\<rparr>))))"
    by (simp add: ex_env_def ex_payload_def strip_dollars_def)
  have h3: "list_all (valid_data_state (json_loads (ex_env [])) ex_data)
     (list_set (ex_env [])
        (map (parse_value (ex_env [])) (findall (state (ex_payload\<lparr>state := ''$A$ and $A$''\<rparr>)))))"
    by (simp add: ex_defs valid_data_state_def)
  show ?thesis
    using h1 h2 h3 save_state_repeated_task_id [OF h1 h2 h3, of "''S''"] by simp
qed

text \<open>
  C8 as stated fails: the template \<open>$a$ $a$\<close> carries the task id \<open>a\<close> in two
  markers, and with no data state for \<open>a\<close> in redis \<open>save_state\<close> answers 400.
\<close>

theorem save_state_repeated_id_bad_request:
  "findall (state (ex_payload\<lparr>state := ''$a$ $a$''\<rparr>)) = [''$a$'', ''$a$''] \<and>
   map (parse_value (ex_env [])) [''$a$'', ''$a$''] = [''a'', ''a''] \<and>
   save_state (ex_env []) ''S'' Map.empty (ex_payload\<lparr>state := ''$a$ $a$''\<rparr>) =
     (Inr (error_body (not_in_redis_error ''a''), 400), Map.empty)"
  by (simp add: save_state_def ex_defs)

section \<open>Requesting access to a state\<close>

text \<open>
  C5. \<open>request_state_access\<close> on a state id without a record in redis answers 404.
  The session is the one it was called with, data tasks and grants included, and so is
  the world: neither the handler factory nor the handler has run, so no job was derived.
\<close>

theorem request_state_access_not_found:
  assumes "r (state_key state_id) = None"
  shows "request_state_access E r s w state_id auth wait =
           (Inr (error_body (state_not_found_error state_id), 404), s, w)"
  using assms by (simp add: request_state_access_def)

theorem request_state_access_not_found_witness:
  "ex_data (state_key ''S'') = None \<and>
   request_state_access (ex_env []) ex_data (ex_session []) 0 ''S'' JNull False =
     (Inr (error_body (state_not_found_error ''S''), 404), ex_session [], 0)"
proof -
  have h: "ex_data (state_key ''S'') = None"
    by (simp add: ex_defs)
  show ?thesis
    using h request_state_access_not_found
            [where r = ex_data and state_id = "''S''" and E = "ex_env []" and s = "ex_session []"
               and w = 0 and auth = JNull and wait = False]
    by simp
qed

lemma request_state_access_accepted:
  assumes "request_state_access E r s w state_id auth wait = (Inr (body, 202), s', w')"
  shows "\<exists>h descriptors w1 task_ids.
           handle E h descriptors (data_tasks s) wait w1 = (Inr task_ids, w') \<and>
           s' = s\<lparr>data_tasks := list_set E (data_tasks s @ task_ids),
                  state_access := (state_access s)(KStr state_id \<mapsto> task_ids)\<rparr>"
  using assms
  by (auto simp: request_state_access_def
           split: option.splits if_splits sum.splits prod.splits)

text \<open>
  C10. After a \<open>request_state_access\<close> that answers 202, the data-task list of the
  session has no task id twice; the grant of the session for the state is the list of
  task ids the handler returned, whatever grant was there before; the data-task list
  holds the ids it held before and every id of that grant; and the grants for other
  states are untouched. This holds for every order in which \<open>list(set(...))\<close> may
  return the elements.
\<close>

theorem request_state_access_grant:
  assumes "list_set_ok (list_set E)"
    and "request_state_access E r s w state_id auth wait = (Inr (body, 202), s', w')"
  shows "distinct (data_tasks s') \<and>
         (\<exists>h descriptors w1 task_ids.
            handle E h descriptors (data_tasks s) wait w1 = (Inr task_ids, w') \<and>
            state_access s' (KStr state_id) = Some task_ids \<and>
            set (data_tasks s') = set (data_tasks s) \<union> set task_ids) \<and>
         (\<forall>k. k \<noteq> KStr state_id \<longrightarrow> state_access s' k = state_access s k) \<and>
         jobs s' = jobs s"
proof -
  from request_state_access_accepted [OF assms(2)]
  obtain h descriptors w1 task_ids where
    h: "handle E h descriptors (data_tasks s) wait w1 = (Inr task_ids, w')" and
    s': "s' = s\<lparr>data_tasks := list_set E (data_tasks s @ task_ids),
                  state_access := (state_access s)(KStr state_id \<mapsto> task_ids)\<rparr>"
    by blast
  from assms(1) have ls:
    "set (list_set E (data_tasks s @ task_ids)) = set (data_tasks s @ task_ids)"
    "distinct (list_set E (data_tasks s @ task_ids))"
    by (simp_all add: list_set_ok_def)
  have "distinct (data_tasks s')" using ls s' by simp
  moreover have "state_access s' (KStr state_id) = Some task_ids" using s' by simp
  moreover have "set (data_tasks s') = set (data_tasks s) \<union> set task_ids" using ls s' by simp
  moreover have "\<forall>k. k \<noteq> KStr state_id \<longrightarrow> state_access s' k = state_access s k"
    using s' by simp
  moreover have "jobs s' = jobs s" using s' by simp
  ultimately show ?thesis using h by blast
qed

theorem request_state_access_grant_witness:
  "list_set_ok (list_set (ex_env [])) \<and>
   request_state_access (ex_env []) ex_redis (ex_session [''A0'']) 0 ''S'' JNull False =
     (Inr (JStr [], 202),
      \<lparr>jobs = [''J1''], data_tasks = [''A'', ''A1'', ''B1''],
       state_access = [KStr ''S'' \<mapsto> [''A1'', ''B1'']]\<rparr>, 1) \<and>
   distinct (data_tasks \<lparr>jobs = [''J1''], data_tasks = [''A'', ''A1'', ''B1''],
       state_access = [KStr ''S'' \<mapsto> [''A1'', ''B1'']]\<rparr>)"
proof -
  have h1: "list_set_ok (list_set (ex_env []))"
    by (simp add: ex_env_def list_set_ok_remdups)
  have h2: "request_state_access (ex_env []) ex_redis (ex_session [''A0'']) 0 ''S'' JNull False =
     (Inr (JStr [], 202),
      \<lparr>jobs = [''J1''], data_tasks = [''A'', ''A1'', ''B1''],
       state_access = [KStr ''S'' \<mapsto> [''A1'', ''B1'']]\<rparr>, 1)"
    by (simp add: request_state_access_def ex_defs)
  from request_state_access_grant [OF h1 h2]
  have "distinct (data_tasks \<lparr>jobs = [''J1''], data_tasks = [''A'', ''A1'', ''B1''],
       state_access = [KStr ''S'' \<mapsto> [''A1'', ''B1'']]\<rparr>)"
    by blast
  then show ?thesis using h1 h2 by blast
qed

section \<open>Reading a state\<close>

text \<open>
  C9. \<open>get_state_data\<close> decodes the value of \<open>state:<id>\<close> before it looks at the
  session. For a state id without a record, \<open>redis.get\<close> is \<open>None\<close>,
  \<open>json.loads(None)\<close> raises \<open>TypeError\<close>, and the view ends with that exception
  for every session, with or without a grant.
\<close>

theorem get_state_data_missing_record:
  assumes "r (state_key state_id) = None"
  shows "get_state_data E r s state_id wait = Inl TypeError"
  using assms by (simp add: get_state_data_def)

theorem get_state_data_missing_record_witness:
  "ex_data (state_key ''S'') = None \<and>
   state_access (ex_session [''A1'', ''B1'']) (KStr ''S'') = Some [''A1'', ''B1''] \<and>
   get_state_data (ex_env []) ex_data (ex_session [''A1'', ''B1'']) ''S'' False = Inl TypeError"
proof -
  have h: "ex_data (state_key ''S'') = None"
    by (simp add: ex_defs)
  show ?thesis
    using h get_state_data_missing_record
            [where r = ex_data and state_id = "''S''" and E = "ex_env []"
               and s = "ex_session [''A1'', ''B1'']" and wait = False]
    by (simp add: ex_session_def)
qed

text \<open>
  C6, on the code. For a session without a grant for the state, \<open>get_state_data\<close>
  answers 404 with the fixed message that access was not requested when the record of
  the state exists and decodes; the template is not part of the answer. Without a
  record it raises \<open>TypeError\<close>, and with a record that does not decode
  \<open>ValueError\<close>, where the claim promises the 404.
\<close>

theorem get_state_data_without_grant:
  assumes "state_access s (KStr state_id) = None"
  shows "get_state_data E r s state_id wait =
           (case r (state_key state_id) of
              None \<Rightarrow> Inl TypeError
            | Some v \<Rightarrow>
                (case json_loads E v of
                   None \<Rightarrow> Inl ValueError
                 | Some meta_state \<Rightarrow> Inr (error_body access_not_requested_error, 404)))"
  using assms by (simp add: get_state_data_def split: option.splits)

theorem get_state_data_without_grant_witness:
  "state_access (ex_session []) (KStr ''T'') = None \<and>
   ex_redis (state_key ''T'') = None \<and>
   get_state_data (ex_env []) ex_redis (ex_session []) ''T'' False = Inl TypeError"
proof -
  have h: "state_access (ex_session []) (KStr ''T'') = None"
    by (simp add: ex_session_def)
  have n: "ex_redis (state_key ''T'') = None"
    by (simp add: ex_defs)
  show ?thesis
    using h n get_state_data_without_grant
              [where s = "ex_session []" and state_id = "''T''" and E = "ex_env []"
                 and r = ex_redis and wait = False]
    by simp
qed

lemma poll_grant_dropWhile:
  assumes "list_all (pollable gds wait) g"
  shows "poll_grant gds wait g =
           (case dropWhile (\<lambda>t. has_status gds wait t ''SUCCESS'') g of
              [] \<Rightarrow> None
            | t # rest \<Rightarrow>
                Some (if has_status gds wait t ''SUBMITTED'' then pending_response
                      else denied_response))"
  using assms
proof (induction g)
  case Nil
  then show ?case by simp
next
  case (Cons t g)
  then show ?case
    by (auto simp: has_status_def pollable_def pending_response_def denied_response_def
             split: option.splits sum.splits)
qed

lemma poll_grant_success:
  "list_all (\<lambda>t. has_status gds wait t ''SUCCESS'') g \<Longrightarrow> poll_grant gds wait g = None"
  by (induction g) (auto simp: has_status_def split: option.splits sum.splits)

lemma dropWhile_first:
  "dropWhile P xs = t # rest \<longleftrightarrow> (\<exists>pre. xs = pre @ t # rest \<and> list_all P pre \<and> \<not> P t)"
proof
  assume "dropWhile P xs = t # rest"
  then have "xs = takeWhile P xs @ t # rest \<and> list_all P (takeWhile P xs) \<and> \<not> P t"
    by (metis dropWhile_eq_Cons_conv list_all_iff set_takeWhileD)
  then show "\<exists>pre. xs = pre @ t # rest \<and> list_all P pre \<and> \<not> P t" by blast
next
  assume "\<exists>pre. xs = pre @ t # rest \<and> list_all P pre \<and> \<not> P t"
  then obtain pre where "xs = pre @ t # rest" "list_all P pre" "\<not> P t" by blast
  then show "dropWhile P xs = t # rest"
    by (simp add: list_all_iff)
qed

lemma has_status_functional:
  "has_status gds wait t a \<Longrightarrow> has_status gds wait t b \<Longrightarrow> a = b"
  by (auto simp: has_status_def split: option.splits)

lemma get_state_data_polled:
  assumes "r (state_key state_id) = Some v"
    and "json_loads E v = Some meta_state"
    and "state_access s (KStr state_id) = Some grant"
    and "poll_grant (get_data_state_for_task_id E) wait grant = Some out"
  shows "get_state_data E r s state_id wait = out"
  using assms by (simp add: get_state_data_def)

lemma get_state_data_granted:
  assumes "r (state_key state_id) = Some v"
    and "json_loads E v = Some meta_state"
    and "state_access s (KStr state_id) = Some grant"
    and "poll_grant (get_data_state_for_task_id E) wait grant = None"
  shows "status_code (get_state_data E r s state_id wait) \<in> {None, Some 200}"
  using assms
  by (auto simp: get_state_data_def status_code_def split: sum.splits json.splits)

text \<open>
  C1 as the code has it. Let the record of the state exist and decode, let the session
  hold a grant for it, and let every job of the grant be pollable. The jobs are polled in
  the order of the grant, and the first one that is not \<open>SUCCESS\<close> decides:
  \<^item> the answer is the pending response (202) exactly if that job is \<open>SUBMITTED\<close>;
  \<^item> it is the denied response (403, a fixed message without the template) exactly if
    that job has any other status or no data state at all;
  \<^item> it is neither, that is an exception or a 200, exactly if every job of the grant
    is \<open>SUCCESS\<close>.
  The three cases exclude each other and leave no fourth, and 202 and 403 are only ever
  sent with these two bodies.
\<close>

theorem get_state_data_first_unfinished:
  assumes "r (state_key state_id) = Some v"
    and "json_loads E v = Some meta_state"
    and "state_access s (KStr state_id) = Some grant"
    and "list_all (pollable (get_data_state_for_task_id E) wait) grant"
  shows "(get_state_data E r s state_id wait = pending_response \<longleftrightarrow>
            (\<exists>pre t post. grant = pre @ t # post \<and>
               list_all (\<lambda>u. has_status (get_data_state_for_task_id E) wait u ''SUCCESS'') pre \<and>
               has_status (get_data_state_for_task_id E) wait t ''SUBMITTED'')) \<and>
         (get_state_data E r s state_id wait = denied_response \<longleftrightarrow>
            (\<exists>pre t post. grant = pre @ t # post \<and>
               list_all (\<lambda>u. has_status (get_data_state_for_task_id E) wait u ''SUCCESS'') pre \<and>
               \<not> has_status (get_data_state_for_task_id E) wait t ''SUBMITTED'' \<and>
               \<not> has_status (get_data_state_for_task_id E) wait t ''SUCCESS'')) \<and>
         (status_code (get_state_data E r s state_id wait) \<in> {None, Some 200} \<longleftrightarrow>
            list_all (\<lambda>u. has_status (get_data_state_for_task_id E) wait u ''SUCCESS'') grant) \<and>
         (status_code (get_state_data E r s state_id wait) = Some 202 \<longleftrightarrow>
            get_state_data E r s state_id wait = pending_response) \<and>
         (status_code (get_state_data E r s state_id wait) = Some 403 \<longleftrightarrow>
            get_state_data E r s state_id wait = denied_response)"
proof -
  let ?gds = "get_data_state_for_task_id E"
  let ?ok = "\<lambda>u. has_status ?gds wait u ''SUCCESS''"
  let ?sub = "\<lambda>u. has_status ?gds wait u ''SUBMITTED''"
  let ?out = "get_state_data E r s state_id wait"
  have sub_not_ok: "\<not> ?ok u" if "?sub u" for u
    using that has_status_functional [of ?gds wait u "''SUBMITTED''" "''SUCCESS''"] by auto
  have codes: "status_code pending_response = Some 202" "status_code denied_response = Some 403"
    "pending_response \<noteq> denied_response"
    by (simp_all add: status_code_def pending_response_def denied_response_def)
  have first: "dropWhile ?ok grant = t # post"
    if "grant = pre @ t # post" "list_all ?ok pre" "\<not> ?ok t" for pre t post
    using that dropWhile_first [of ?ok grant t post] by blast
  show ?thesis
  proof (cases "dropWhile ?ok grant")
    case Nil
    then have all: "list_all ?ok grant"
      by (simp add: list_all_iff)
    then have "poll_grant ?gds wait grant = None"
      by (rule poll_grant_success)
    then have granted: "status_code ?out \<in> {None, Some 200}"
      using assms(1-3) by (rule get_state_data_granted [rotated 3])
    then have "?out \<noteq> pending_response" "?out \<noteq> denied_response"
      using codes by auto
    moreover have "\<not> (\<exists>pre t post. grant = pre @ t # post \<and> list_all ?ok pre \<and> ?sub t)"
      using all sub_not_ok by (auto simp: list_all_iff)
    moreover have "\<not> (\<exists>pre t post. grant = pre @ t # post \<and> list_all ?ok pre \<and>
                      \<not> ?sub t \<and> \<not> ?ok t)"
      using all by (auto simp: list_all_iff)
    ultimately show ?thesis
      using granted all codes by auto
  next
    case (Cons t post)
    then obtain pre where pre: "grant = pre @ t # post" "list_all ?ok pre" "\<not> ?ok t"
      using dropWhile_first [of ?ok grant t post] by blast
    then have not_all: "\<not> list_all ?ok grant"
      by (auto simp: list_all_iff)
    have only: "t' = t" if "grant = pre' @ t' # post'" "list_all ?ok pre'" "\<not> ?ok t'"
      for pre' t' post'
      using first [OF that] Cons by simp
    have "poll_grant ?gds wait grant =
            Some (if ?sub t then pending_response else denied_response)"
      using poll_grant_dropWhile [OF assms(4)] Cons by simp
    then have out: "?out = (if ?sub t then pending_response else denied_response)"
      using assms(1-3) by (rule get_state_data_polled [rotated 3])
    show ?thesis
    proof (cases "?sub t")
      case True
      then have "?out = pending_response" using out by simp
      moreover have "\<exists>pre t post. grant = pre @ t # post \<and> list_all ?ok pre \<and> ?sub t"
        using pre True by blast
      moreover have "\<not> (\<exists>pre t post. grant = pre @ t # post \<and> list_all ?ok pre \<and>
                        \<not> ?sub t \<and> \<not> ?ok t)"
        using only True by blast
      ultimately show ?thesis
        using not_all codes by auto
    next
      case False
      then have "?out = denied_response" using out by simp
      moreover have "\<exists>pre t post. grant = pre @ t # post \<and> list_all ?ok pre \<and>
                       \<not> ?sub t \<and> \<not> ?ok t"
        using pre False by blast
      moreover have "\<not> (\<exists>pre t post. grant = pre @ t # post \<and> list_all ?ok pre \<and> ?sub t)"
        using only False sub_not_ok by blast
      ultimately show ?thesis
        using not_all codes by auto
    qed
  qed
qed

theorem get_state_data_first_unfinished_witness:
  "ex_redis (state_key ''S'') = Some ''<S>'' \<and>
   json_loads (ex_env [(''A1'', ''SUCCESS''), (''B1'', ''SUBMITTED'')]) ''<S>'' = Some ex_meta_state \<and>
   state_access (ex_session [''A1'', ''B1'']) (KStr ''S'') = Some [''A1'', ''B1''] \<and>
   list_all (pollable (get_data_state_for_task_id
                (ex_env [(''A1'', ''SUCCESS''), (''B1'', ''SUBMITTED'')])) False) [''A1'', ''B1''] \<and>
   get_state_data (ex_env [(''A1'', ''SUCCESS''), (''B1'', ''SUBMITTED'')]) ex_redis
     (ex_session [''A1'', ''B1'']) ''S'' False = pending_response"
proof -
  let ?E = "ex_env [(''A1'', ''SUCCESS''), (''B1'', ''SUBMITTED'')]"
  have h1: "ex_redis (state_key ''S'') = Some ''<S>''"
    by (simp add: ex_defs)
  have h2: "json_loads ?E ''<S>'' = Some ex_meta_state"
    by (simp add: ex_env_def ex_loads_def)
  have h3: "state_access (ex_session [''A1'', ''B1'']) (KStr ''S'') = Some [''A1'', ''B1'']"
    by (simp add: ex_session_def)
  have h4: "list_all (pollable (get_data_state_for_task_id ?E) False) [''A1'', ''B1'']"
    by (simp add: ex_env_def pollable_def)
  have "[''A1'', ''B1''] = [''A1''] @ ''B1'' # [] \<and>
        list_all (\<lambda>u. has_status (get_data_state_for_task_id ?E) False u ''SUCCESS'') [''A1''] \<and>
        has_status (get_data_state_for_task_id ?E) False ''B1'' ''SUBMITTED''"
    by (simp add: ex_env_def has_status_def)
  then have "\<exists>pre t post. [''A1'', ''B1''] = pre @ t # post \<and>
        list_all (\<lambda>u. has_status (get_data_state_for_task_id ?E) False u ''SUCCESS'') pre \<and>
        has_status (get_data_state_for_task_id ?E) False t ''SUBMITTED''"
    by blast
  with get_state_data_first_unfinished
         [where r = ex_redis and state_id = "''S''" and E = ?E and wait = False
            and s = "ex_session [''A1'', ''B1'']", OF h1 h2 h3 h4]
  have "get_state_data ?E ex_redis (ex_session [''A1'', ''B1'']) ''S'' False = pending_response"
    by blast
  then show ?thesis using h1 h2 h3 h4 by blast
qed

text \<open>
  C1 as stated fails. With the grant \<open>[A1, B1]\<close>, \<open>A1\<close> still \<open>SUBMITTED\<close> and
  \<open>B1\<close> a \<open>FAILURE\<close>, a job of the grant has failed and yet the answer is the
  pending response: the loop leaves at \<open>A1\<close> and never polls \<open>B1\<close>. And a single job
  in celery's running state \<open>STARTED\<close> is answered with the denied response.
\<close>

theorem get_state_data_pending_despite_failure:
  "state_access (ex_session [''A1'', ''B1'']) (KStr ''S'') = Some [''A1'', ''B1''] \<and>
   has_status (get_data_state_for_task_id (ex_env [(''A1'', ''SUBMITTED''), (''B1'', ''FAILURE'')]))
     False ''B1'' ''FAILURE'' \<and>
   get_state_data (ex_env [(''A1'', ''SUBMITTED''), (''B1'', ''FAILURE'')]) ex_redis
     (ex_session [''A1'', ''B1'']) ''S'' False = pending_response \<and>
   pending_response \<noteq> denied_response \<and>
   has_status (get_data_state_for_task_id (ex_env [(''A1'', ''STARTED'')])) False ''A1'' ''STARTED'' \<and>
   get_state_data (ex_env [(''A1'', ''STARTED'')]) ex_redis (ex_session [''A1'']) ''S'' False =
     denied_response"
  by (simp add: get_state_data_def has_status_def pending_response_def denied_response_def ex_defs)

lemma substitute_key_error:
  "sa (KInt 0) = None \<Longrightarrow> substitute sub sa (enumerate 0 (t # ts)) kvs = Inl KeyError"
  by simp

text \<open>
  C2, on the code. Let the record of the state hold at least one task id, let the
  session hold a grant for the state with every job \<open>SUCCESS\<close>, and let the grant table
  of the session have no integer keys (its keys are the strings \<open>str(state_id)\<close>).
  Then \<open>get_state_data\<close> does not return the rewritten template: the replacement for
  the first task id is read as \<open>session['state_access'][0]\<close>, from the grant table
  instead of the grant of this state, and the view ends with \<open>KeyError\<close>.
\<close>

theorem get_state_data_key_error:
  assumes "r (state_key state_id) = Some v"
    and "json_loads E v = Some (JObj kvs)"
    and "map_of kvs ''task_ids'' = Some tids"
    and "py_iter tids = Inr (t # ts)"
    and "state_access s (KStr state_id) = Some grant"
    and "list_all (\<lambda>u. has_status (get_data_state_for_task_id E) wait u ''SUCCESS'') grant"
    and "\<forall>i. state_access s (KInt i) = None"
  shows "get_state_data E r s state_id wait = Inl KeyError"
proof -
  have "poll_grant (get_data_state_for_task_id E) wait grant = None"
    using assms(6) by (rule poll_grant_success)
  moreover have "substitute (re_sub E) (state_access s) (enumerate 0 (t # ts)) kvs = Inl KeyError"
    using assms(7) by (simp add: substitute_key_error)
  ultimately show ?thesis
    using assms(1-5) by (simp add: get_state_data_def)
qed

theorem get_state_data_key_error_witness:
  "ex_redis (state_key ''S'') = Some ''<S>'' \<and>
   json_loads (ex_env [(''A1'', ''SUCCESS''), (''B1'', ''SUCCESS'')]) ''<S>'' =
     Some (JObj [(''state'', JStr ''$A$ vs $B$''), (''server'', JStr ''srv''),
                 (''handler'', JStr ''test''), (''task_ids'', JArr [JStr ''A'', JStr ''B'']),
                 (''descriptors'', JArr [JStr ''dA'', JStr ''dB''])]) \<and>
   state_access (ex_session [''A1'', ''B1'']) (KStr ''S'') = Some [''A1'', ''B1''] \<and>
   list_all (\<lambda>u. has_status (get_data_state_for_task_id
                (ex_env [(''A1'', ''SUCCESS''), (''B1'', ''SUCCESS'')])) False u ''SUCCESS'')
     [''A1'', ''B1''] \<and>
   (\<forall>i. state_access (ex_session [''A1'', ''B1'']) (KInt i) = None) \<and>
   get_state_data (ex_env [(''A1'', ''SUCCESS''), (''B1'', ''SUCCESS'')]) ex_redis
     (ex_session [''A1'', ''B1'']) ''S'' False = Inl KeyError"
proof -
  let ?E = "ex_env [(''A1'', ''SUCCESS''), (''B1'', ''SUCCESS'')]"
  let ?kvs = "[(''state'', JStr ''$A$ vs $B$''), (''server'', JStr ''srv''),
               (''handler'', JStr ''test''), (''task_ids'', JArr [JStr ''A'', JStr ''B'']),
               (''descriptors'', JArr [JStr ''dA'', JStr ''dB''])]"
  have h1: "ex_redis (state_key ''S'') = Some ''<S>''"
    by (simp add: ex_defs)
  have h2: "json_loads ?E ''<S>'' = Some (JObj ?kvs)"
    by (simp add: ex_defs)
  have h3: "map_of ?kvs ''task_ids'' = Some (JArr [JStr ''A'', JStr ''B''])"
    by simp
  have h4: "py_iter (JArr [JStr ''A'', JStr ''B'']) = Inr (JStr ''A'' # [JStr ''B''])"
    by simp
  have h5: "state_access (ex_session [''A1'', ''B1'']) (KStr ''S'') = Some [''A1'', ''B1'']"
    by (simp add: ex_session_def)
  have h6: "list_all (\<lambda>u. has_status (get_data_state_for_task_id ?E) False u ''SUCCESS'')
              [''A1'', ''B1'']"
    by (simp add: ex_env_def has_status_def)
  have h7: "\<forall>i. state_access (ex_session [''A1'', ''B1'']) (KInt i) = None"
    by (simp add: ex_session_def)
  from get_state_data_key_error
         [where r = ex_redis and state_id = "''S''" and E = ?E and wait = False
            and s = "ex_session [''A1'', ''B1'']", OF h1 h2 h3 h4 h5 h6 h7]
  have "get_state_data ?E ex_redis (ex_session [''A1'', ''B1'']) ''S'' False = Inl KeyError" .
  then show ?thesis using h1 h2 h5 h6 h7 by blast
qed

section \<open>Analytics jobs of a session\<close>








text \<open>
  C7. For a job of the session whose result is an exception, \<open>get_job_details\<close>
  answers 200 with the state of the job and, as its result, the string made of the
  name of the exception's type, a colon and a space, and the exception's message. It
  returns at once without \<open>wait\<close>, and with \<open>wait\<close> as soon as the job is ready; the
  state and the result are read after the wait.
\<close>

theorem get_job_details_exception:
  assumes "job_id \<in> set (jobs s)"
    and "(if wait then async_get C job_id w else Some w) = Some w'"
    and "async_result C w' job_id = Exception name msg"
  shows "get_job_details C s w job_id wait =
           Some (Inr (JObj [(''status'', JStr (async_state C w' job_id)),
                            (''result'', JStr (name @ '': '' @ msg))], 200), s, w')"
  using assms
  by (auto simp: get_job_details_def job_details_def exception_str_def split: if_splits)

theorem get_job_details_exception_witness:
  "''J1'' \<in> set (jobs (ex_session [])) \<and>
   (if True then async_get ex_celery ''J1'' 0 else Some 0) = Some (0::nat) \<and>
   async_result ex_celery (0::nat) ''J1'' = Exception ''ValueError'' ''bad input'' \<and>
   get_job_details ex_celery (ex_session []) 0 ''J1'' True =
     Some (Inr (JObj [(''status'', JStr ''FAILURE''),
                      (''result'', JStr ''ValueError: bad input'')], 200), ex_session [], 0)"
proof -
  have h1: "''J1'' \<in> set (jobs (ex_session []))"
    by (simp add: ex_session_def)
  have h2: "(if True then async_get ex_celery ''J1'' 0 else Some 0) = Some (0::nat)"
    by (simp add: ex_celery_def)
  have h3: "async_result ex_celery (0::nat) ''J1'' = Exception ''ValueError'' ''bad input''"
    by (simp add: ex_celery_def)
  have st: "async_state ex_celery (0::nat) ''J1'' = ''FAILURE''"
    by (simp add: ex_celery_def)
  from get_job_details_exception [OF h1 h2 h3]
  have "get_job_details ex_celery (ex_session []) 0 ''J1'' True =
     Some (Inr (JObj [(''status'', JStr ''FAILURE''),
                      (''result'', JStr ''ValueError: bad input'')], 200), ex_session [], 0)"
    by (simp add: st)
  then show ?thesis using h1 h2 h3 by blast
qed

end
